theory Spec2Isabelle
  imports Main
begin

section \<open>The adoption lifecycle of The Ark: tables and route handlers\<close>

text \<open>
  The model follows \<^verbatim>\<open>routes/adoptions.js\<close>, \<^verbatim>\<open>routes/animals.js\<close>,
  \<^verbatim>\<open>middleware/auth.js\<close>, \<^verbatim>\<open>server.js\<close>, the query helpers of the database module
  (\<^verbatim>\<open>executeQuery\<close>, \<^verbatim>\<open>getOne\<close>) and \<^verbatim>\<open>database/schema.sql\<close>.
  A table is the list of its rows, a \<^verbatim>\<open>SELECT ... WHERE\<close> is a filter, an
  \<^verbatim>\<open>UPDATE ... WHERE\<close> maps over the rows, a \<^verbatim>\<open>DELETE ... WHERE\<close> keeps the
  other rows and an \<^verbatim>\<open>INSERT\<close> appends a row whose id is the table's
  AUTO_INCREMENT counter. A route takes the database and returns the HTTP response
  together with the database it leaves behind. \<^verbatim>\<open>CURRENT_TIMESTAMP\<close> is the input
  \<open>now\<close>.

  In the status handler a query can raise: the input \<open>fault\<close> says how many queries
  succeed first (\<open>None\<close>: all of them), and the catch branch answers 500 with the
  writes made so far kept, since no transaction spans them. The other handlers make
  one write each; they are modelled with queries that succeed.
\<close>

subsection \<open>Rows\<close>

datatype status = Pending | Approved | Rejected | Completed

datatype role = RoleUser | RoleAdmin | RoleVolunteer

datatype housing = House | Apartment | Condo | Other

text \<open>\<^verbatim>\<open>req.user\<close>, as the authentication middleware leaves it.\<close>

record user =
  user_id :: nat
  user_role :: role

text \<open>
  A row of \<^verbatim>\<open>animals\<close>. Of the descriptive columns the model keeps the name, the
  description and the location; the others are written by the same statements in the
  same way and no adoption handler reads them.
\<close>

record animal =
  animal_id :: nat
  animal_name :: string
  description :: string
  location :: string
  is_available :: bool
  updated_at :: nat

text \<open>The form fields of an application, all of them present in the request body.\<close>

record details =
  housing_type :: housing
  has_yard :: bool
  has_other_pets :: bool
  other_pets_description :: string
  experience_with_pets :: string
  reason_for_adoption :: string
  work_schedule :: string
  emergency_contact_name :: string
  emergency_contact_phone :: string
  veterinarian_name :: string
  veterinarian_phone :: string

text \<open>A row of \<^verbatim>\<open>adoption_applications\<close>; the last three columns are NULL until a review.\<close>

record application =
  app_id :: nat
  app_user_id :: nat
  app_animal_id :: nat
  app_status :: status
  app_details :: details
  application_date :: nat
  reviewed_by :: "nat option"
  reviewed_date :: "nat option"
  admin_notes :: "string option"

record db =
  animals :: "animal list"
  applications :: "application list"
  next_application_id :: nat

datatype response = Response (http_status: nat) (message: string)

subsection \<open>Query helpers\<close>

text \<open>\<^verbatim>\<open>getOne\<close>: \<^verbatim>\<open>results[0] || null\<close>.\<close>

definition getOne :: "'a list \<Rightarrow> 'a option" where
  "getOne results = (case results of [] \<Rightarrow> None | r # _ \<Rightarrow> Some r)"

text \<open>\<^verbatim>\<open>SELECT ... FROM animals WHERE id = ?\<close>\<close>

definition select_animal :: "nat \<Rightarrow> db \<Rightarrow> animal option" where
  "select_animal aid s = getOne (filter (\<lambda>r. animal_id r = aid) (animals s))"

text \<open>\<^verbatim>\<open>SELECT ... FROM adoption_applications WHERE id = ?\<close>\<close>

definition select_application :: "nat \<Rightarrow> db \<Rightarrow> application option" where
  "select_application i s = getOne (filter (\<lambda>r. app_id r = i) (applications s))"

text \<open>
  \<^verbatim>\<open>SELECT id FROM adoption_applications WHERE user_id = ? AND animal_id = ? AND status = "pending"\<close>
\<close>

definition select_pending :: "nat \<Rightarrow> nat \<Rightarrow> db \<Rightarrow> application option" where
  "select_pending uid aid s =
     getOne (filter (\<lambda>r. app_user_id r = uid \<and> app_animal_id r = aid \<and> app_status r = Pending)
       (applications s))"

text \<open>
  \<^verbatim>\<open>UPDATE animals SET is_available = ? WHERE id = ?\<close>. The schema declares
  \<^verbatim>\<open>updated_at ... ON UPDATE CURRENT_TIMESTAMP\<close>: the column moves to \<open>now\<close> when the
  statement changes the row.
\<close>

definition set_is_available :: "bool \<Rightarrow> nat \<Rightarrow> nat \<Rightarrow> db \<Rightarrow> db" where
  "set_is_available v now aid s =
     s\<lparr>animals := map (\<lambda>r. if animal_id r = aid
                             then r\<lparr>is_available := v,
                                    updated_at := (if is_available r = v then updated_at r else now)\<rparr>
                             else r) (animals s)\<rparr>"

text \<open>
  \<^verbatim>\<open>UPDATE adoption_applications SET status = ?, admin_notes = ?, reviewed_by = ?,
  reviewed_date = CURRENT_TIMESTAMP WHERE id = ?\<close>
\<close>

definition review :: "status \<Rightarrow> string \<Rightarrow> nat \<Rightarrow> nat \<Rightarrow> application \<Rightarrow> application" where
  "review st notes reviewer now r =
     r\<lparr>app_status := st, admin_notes := Some notes, reviewed_by := Some reviewer,
       reviewed_date := Some now\<rparr>"

definition update_status :: "status \<Rightarrow> string \<Rightarrow> nat \<Rightarrow> nat \<Rightarrow> nat \<Rightarrow> db \<Rightarrow> db" where
  "update_status st notes reviewer now i s =
     s\<lparr>applications := map (\<lambda>r. if app_id r = i then review st notes reviewer now r else r)
        (applications s)\<rparr>"

text \<open>
  \<^verbatim>\<open>UPDATE adoption_applications SET status = 'rejected', admin_notes = 'Animal was adopted
  by another applicant', reviewed_by = ?, reviewed_date = CURRENT_TIMESTAMP
  WHERE animal_id = ? AND id != ? AND status = 'pending'\<close>
\<close>

definition reject_other_pending :: "nat \<Rightarrow> nat \<Rightarrow> nat \<Rightarrow> nat \<Rightarrow> db \<Rightarrow> db" where
  "reject_other_pending reviewer now aid i s =
     s\<lparr>applications :=
         map (\<lambda>r. if app_animal_id r = aid \<and> app_id r \<noteq> i \<and> app_status r = Pending
                  then review Rejected ''Animal was adopted by another applicant'' reviewer now r
                  else r) (applications s)\<rparr>"

text \<open>\<^verbatim>\<open>DELETE FROM adoption_applications WHERE id = ?\<close>\<close>

definition delete_application_row :: "nat \<Rightarrow> db \<Rightarrow> db" where
  "delete_application_row i s = s\<lparr>applications := filter (\<lambda>r. app_id r \<noteq> i) (applications s)\<rparr>"

text \<open>
  \<^verbatim>\<open>INSERT INTO adoption_applications (user_id, animal_id, ...) VALUES (...)\<close>: the status
  defaults to pending, the application date to the current time, the review columns
  to NULL, and the id is the next AUTO_INCREMENT value.
\<close>

definition insert_application :: "nat \<Rightarrow> nat \<Rightarrow> details \<Rightarrow> nat \<Rightarrow> db \<Rightarrow> db" where
  "insert_application uid aid d now s =
     s\<lparr>applications := applications s @
          [\<lparr>app_id = next_application_id s, app_user_id = uid, app_animal_id = aid,
            app_status = Pending, app_details = d, application_date = now,
            reviewed_by = None, reviewed_date = None, admin_notes = None\<rparr>],
       next_application_id := Suc (next_application_id s)\<rparr>"

subsection \<open>The middleware of \<^verbatim>\<open>middleware/auth.js\<close>\<close>

text \<open>
  \<^verbatim>\<open>requireRole(...roles)\<close> reads \<^verbatim>\<open>req.user\<close>: it answers 401 when the request
  carries no user and 403 when the user's role is not among \<open>roles\<close>; otherwise the
  next handler runs (\<open>None\<close>). \<^verbatim>\<open>requireStaff\<close> is \<^verbatim>\<open>requireRole('admin', 'volunteer')\<close>.
\<close>

definition requireRole :: "role list \<Rightarrow> user option \<Rightarrow> response option" where
  "requireRole roles req_user =
     (case req_user of
        None \<Rightarrow> Some (Response 401 ''Authentication required.'')
      | Some u \<Rightarrow>
          if user_role u \<notin> set roles
          then Some (Response 403 ''Access denied. Insufficient permissions.'')
          else None)"

definition requireStaff :: "user option \<Rightarrow> response option" where
  "requireStaff = requireRole [RoleAdmin, RoleVolunteer]"

text \<open>
  \<^verbatim>\<open>req.user\<close> is set by \<^verbatim>\<open>verifyToken\<close> (and by \<^verbatim>\<open>optionalAuth\<close>) and by nothing else:
  \<^verbatim>\<open>server.js\<close> installs the rate limiter, helmet, compression, the logger, the
  cookie and body parsers and CORS before the routers, none of which sets it.
  \<^verbatim>\<open>verifyToken\<close> answers 401 without touching the tables, or sets \<^verbatim>\<open>req.user\<close> to an
  active row of \<^verbatim>\<open>users\<close>. \<^verbatim>\<open>POST /api/adoptions\<close> and \<^verbatim>\<open>DELETE /api/adoptions/:id\<close> are
  mounted behind it, and \<open>u\<close> in their handlers below is the user it set.
\<close>

subsection \<open>The handlers of \<^verbatim>\<open>routes/adoptions.js\<close>\<close>

fun status_name :: "status \<Rightarrow> string" where
  "status_name Pending = ''pending''"
| "status_name Approved = ''approved''"
| "status_name Rejected = ''rejected''"
| "status_name Completed = ''completed''"

text \<open>
  \<^verbatim>\<open>POST /api/adoptions\<close>. \<open>body_ok\<close> is \<^verbatim>\<open>validationResult(req).isEmpty()\<close>, the
  verdict of the express-validator chain on the form fields; \<open>u\<close> is the
  authenticated user.
\<close>

definition post_adoption :: "user \<Rightarrow> bool \<Rightarrow> nat \<Rightarrow> nat \<Rightarrow> details \<Rightarrow> db \<Rightarrow> response \<times> db" where
  "post_adoption u body_ok now aid d s =
     (if \<not> body_ok then (Response 400 ''Validation errors'', s)
      else case select_animal aid s of
        None \<Rightarrow> (Response 404 ''Animal not found'', s)
      | Some a \<Rightarrow>
          if \<not> is_available a
          then (Response 400 ''This animal is no longer available for adoption'', s)
          else (case select_pending (user_id u) aid s of
            Some _ \<Rightarrow> (Response 400 ''You already have a pending application for this animal'', s)
          | None \<Rightarrow> (Response 201 ''Adoption application submitted successfully'',
                      insert_application (user_id u) aid d now s)))"

text \<open>
  A query of the status handler, \<^verbatim>\<open>await executeQuery(...)\<close> or \<^verbatim>\<open>await getOne(...)\<close>:
  the database so far and the number of queries already run go in; the query raises
  (\<open>Inl\<close>, with the database as it is) when \<open>fault\<close> names its number, and
  otherwise makes its write, which for a \<^verbatim>\<open>SELECT\<close> is none. \<open>and_then\<close> is the
  sequence of two statements inside the \<^verbatim>\<open>try\<close> block: what follows a statement that
  raised does not run.
\<close>

definition executeQuery :: "nat option \<Rightarrow> (db \<Rightarrow> db) \<Rightarrow> db \<times> nat \<Rightarrow> db + db \<times> nat" where
  "executeQuery fault write p =
     (if fault = Some (snd p) then Inl (fst p) else Inr (write (fst p), Suc (snd p)))"

definition and_then :: "db + db \<times> nat \<Rightarrow> (db \<times> nat \<Rightarrow> db + db \<times> nat) \<Rightarrow> db + db \<times> nat" where
  "and_then r f = (case r of Inl t \<Rightarrow> Inl t | Inr p \<Rightarrow> f p)"

text \<open>
  The statements of the handler after the application \<open>a\<close> was selected: the
  update of the row, the cascade of an approval, the release of the animal of an
  approved application that is rejected or completed, and the closing
  \<^verbatim>\<open>SELECT\<close> for the response.
\<close>

definition status_writes ::
  "nat \<Rightarrow> nat option \<Rightarrow> nat \<Rightarrow> nat \<Rightarrow> status \<Rightarrow> string \<Rightarrow> application \<Rightarrow> db \<times> nat \<Rightarrow> db + db \<times> nat" where
  "status_writes reviewer fault now i st notes a p =
     and_then (executeQuery fault (update_status st notes reviewer now i) p) (\<lambda>p1.
     and_then (if st = Approved \<and> app_status a \<noteq> Approved
               then and_then (executeQuery fault (set_is_available False now (app_animal_id a)) p1)
                      (executeQuery fault (reject_other_pending reviewer now (app_animal_id a) i))
               else Inr p1) (\<lambda>p2.
     and_then (if (st = Rejected \<or> st = Completed) \<and> app_status a = Approved
               then executeQuery fault (set_is_available True now (app_animal_id a)) p2
               else Inr p2) (\<lambda>p3.
     executeQuery fault id p3)))"

text \<open>
  The handler of \<^verbatim>\<open>PUT /api/adoptions/:id/status\<close>, behind the validators. The status
  of the body is one of the four by its type; \<open>admin_notes\<close> is optional and at most
  1000 characters long. \<open>i\<close> is the id of the path. The first statement is the
  \<^verbatim>\<open>SELECT\<close> of the application. The \<^verbatim>\<open>UPDATE\<close> takes \<^verbatim>\<open>admin_notes\<close> and
  \<^verbatim>\<open>req.user.id\<close> as bind parameters: when the body has no notes the driver refuses
  the undefined parameter, and when the request has no user the property access
  raises; both end in the catch branch before anything is written.
\<close>

definition put_status_handler ::
  "user option \<Rightarrow> nat option \<Rightarrow> nat \<Rightarrow> nat \<Rightarrow> status \<Rightarrow> string option \<Rightarrow> db \<Rightarrow> response \<times> db" where
  "put_status_handler req_user fault now i st notes s =
     (if \<not> (case notes of None \<Rightarrow> True | Some n \<Rightarrow> length n \<le> 1000)
      then (Response 400 ''Validation errors'', s)
      else case executeQuery fault id (s, 0) of
        Inl t \<Rightarrow> (Response 500 ''Server error updating application status'', t)
      | Inr p \<Rightarrow>
          (case select_application i s of
             None \<Rightarrow> (Response 404 ''Application not found'', s)
           | Some a \<Rightarrow>
               (case (notes, req_user) of
                  (Some n, Some u) \<Rightarrow>
                    (case status_writes (user_id u) fault now i st n a p of
                       Inl t \<Rightarrow> (Response 500 ''Server error updating application status'', t)
                     | Inr q \<Rightarrow>
                         (Response 200 (''Application '' @ status_name st @ '' successfully''), fst q))
                | _ \<Rightarrow> (Response 500 ''Server error updating application status'', s))))"

text \<open>
  The route: \<^verbatim>\<open>router.put('/:id/status', [requireStaff, body('status')...,
  body('admin_notes')...], handler)\<close>, for a request that arrives with \<^verbatim>\<open>req.user\<close> as
  given.
\<close>

definition status_route ::
  "user option \<Rightarrow> nat option \<Rightarrow> nat \<Rightarrow> nat \<Rightarrow> status \<Rightarrow> string option \<Rightarrow> db \<Rightarrow> response \<times> db" where
  "status_route req_user fault now i st notes s =
     (case requireStaff req_user of
        Some refusal \<Rightarrow> (refusal, s)
      | None \<Rightarrow> put_status_handler req_user fault now i st notes s)"

text \<open>
  The route as the server mounts it: \<^verbatim>\<open>requireStaff\<close> is the first middleware of the
  route and no \<^verbatim>\<open>verifyToken\<close> precedes it, so the request reaches it without a user,
  whatever token it carries.
\<close>

definition put_status :: "nat option \<Rightarrow> nat \<Rightarrow> nat \<Rightarrow> status \<Rightarrow> string option \<Rightarrow> db \<Rightarrow> response \<times> db" where
  "put_status fault now i st notes s = status_route None fault now i st notes s"

text \<open>\<^verbatim>\<open>DELETE /api/adoptions/:id\<close>\<close>

definition delete_adoption :: "user \<Rightarrow> nat \<Rightarrow> db \<Rightarrow> response \<times> db" where
  "delete_adoption u i s =
     (case select_application i s of
        None \<Rightarrow> (Response 404 ''Application not found'', s)
      | Some a \<Rightarrow>
          if user_role u = RoleUser \<and> app_user_id a \<noteq> user_id u
          then (Response 403 ''Access denied'', s)
          else if user_role u = RoleUser \<and> app_status a \<noteq> Pending
          then (Response 400 ''Cannot delete non-pending applications'', s)
          else (Response 200 ''Application deleted successfully'', delete_application_row i s))"

subsection \<open>The update route of \<^verbatim>\<open>routes/animals.js\<close>\<close>

text \<open>
  The body of \<^verbatim>\<open>PUT /api/animals/:id\<close>: a field is \<open>None\<close> when the body leaves it
  undefined. The model carries the description, the location and the availability
  flag of the sixteen allowed fields.
\<close>

record animal_update =
  new_description :: "string option"
  new_location :: "string option"
  new_is_available :: "bool option"

definition animal_update_ok :: "animal_update \<Rightarrow> bool" where
  "animal_update_ok f =
     ((case new_description f of None \<Rightarrow> True | Some d \<Rightarrow> length d \<le> 2000) \<and>
      (case new_location f of None \<Rightarrow> True | Some l \<Rightarrow> length l \<le> 255))"

text \<open>\<^verbatim>\<open>UPDATE animals SET <the fields given>, updated_at = CURRENT_TIMESTAMP WHERE id = ?\<close>\<close>

definition apply_update :: "animal_update \<Rightarrow> nat \<Rightarrow> animal \<Rightarrow> animal" where
  "apply_update f now r =
     r\<lparr>description := (case new_description f of None \<Rightarrow> description r | Some d \<Rightarrow> d),
       location := (case new_location f of None \<Rightarrow> location r | Some l \<Rightarrow> l),
       is_available := (case new_is_available f of None \<Rightarrow> is_available r | Some v \<Rightarrow> v),
       updated_at := now\<rparr>"

definition put_animal_handler :: "nat \<Rightarrow> nat \<Rightarrow> animal_update \<Rightarrow> db \<Rightarrow> response \<times> db" where
  "put_animal_handler now aid f s =
     (if \<not> animal_update_ok f then (Response 400 ''Validation errors'', s)
      else if new_description f = None \<and> new_location f = None \<and> new_is_available f = None
      then (Response 400 ''No valid fields to update'', s)
      else case select_animal aid s of
        None \<Rightarrow> (Response 404 ''Animal not found'', s)
      | Some _ \<Rightarrow>
          (Response 200 ''Animal updated successfully'',
           s\<lparr>animals := map (\<lambda>r. if animal_id r = aid then apply_update f now r else r)
                (animals s)\<rparr>))"

text \<open>
  The route, \<^verbatim>\<open>router.put('/:id', [requireStaff, body('name')..., ...], handler)\<close>,
  for a request that arrives with \<^verbatim>\<open>req.user\<close> as given, and the route as mounted:
  here too no \<^verbatim>\<open>verifyToken\<close> precedes \<^verbatim>\<open>requireStaff\<close>.
\<close>

definition animal_route :: "user option \<Rightarrow> nat \<Rightarrow> nat \<Rightarrow> animal_update \<Rightarrow> db \<Rightarrow> response \<times> db" where
  "animal_route req_user now aid f s =
     (case requireStaff req_user of
        Some refusal \<Rightarrow> (refusal, s)
      | None \<Rightarrow> put_animal_handler now aid f s)"

definition put_animal :: "nat \<Rightarrow> nat \<Rightarrow> animal_update \<Rightarrow> db \<Rightarrow> response \<times> db" where
  "put_animal now aid f s = animal_route None now aid f s"

subsection \<open>Sequences of the lifecycle operations\<close>

text \<open>
  The requests an applicant or a member of staff can send for the applications table,
  with the inputs of their routes, and the database a sequence of them leaves behind.
  A creation and a deletion carry the user \<^verbatim>\<open>verifyToken\<close> set; a status update goes
  through the route as mounted.
\<close>

datatype operation =
    Create user bool nat nat details
  | Transition "nat option" nat nat status "string option"
  | Delete user nat

fun step :: "operation \<Rightarrow> db \<Rightarrow> db" where
  "step (Create u body_ok now aid d) s = snd (post_adoption u body_ok now aid d s)"
| "step (Transition fault now i st notes) s = snd (put_status fault now i st notes s)"
| "step (Delete u i) s = snd (delete_adoption u i s)"

definition run :: "operation list \<Rightarrow> db \<Rightarrow> db" where
  "run ops s = fold step ops s"

text \<open>\<^verbatim>\<open>SELECT COUNT(*) FROM adoption_applications WHERE animal_id = ? AND status = 'approved'\<close>\<close>

definition approved_count :: "nat \<Rightarrow> db \<Rightarrow> nat" where
  "approved_count aid s =
     length (filter (\<lambda>r. app_animal_id r = aid \<and> app_status r = Approved) (applications s))"

text \<open>
  What the schema and the data model ask of the two tables together: the animal of
  every application has a row (the foreign key of \<^verbatim>\<open>adoption_applications.animal_id\<close>),
  and no row of an animal with an approved application is available.
\<close>

definition consistent :: "db \<Rightarrow> bool" where
  "consistent s \<longleftrightarrow>
     (\<forall>r \<in> set (applications s).
        (\<exists>an \<in> set (animals s). animal_id an = app_animal_id r) \<and>
        (app_status r = Approved \<longrightarrow>
           (\<forall>an \<in> set (animals s). animal_id an = app_animal_id r \<longrightarrow> \<not> is_available an)))"

subsection \<open>A shelter with one animal\<close>

definition rex :: animal where
  "rex = \<lparr>animal_id = 7, animal_name = ''Rex'', description = ''A calm dog'',
          location = ''Kennel 3'', is_available = True, updated_at = 0\<rparr>"

definition form :: details where
  "form = \<lparr>housing_type = House, has_yard = True, has_other_pets = False,
           other_pets_description = '''', experience_with_pets = ''Grew up with dogs'',
           reason_for_adoption = ''Companionship'', work_schedule = ''Nine to five'',
           emergency_contact_name = ''Sam'', emergency_contact_phone = ''5550100'',
           veterinarian_name = ''Dr Vet'', veterinarian_phone = ''5550101''\<rparr>"

definition alice :: user where
  "alice = \<lparr>user_id = 1, user_role = RoleUser\<rparr>"

definition bob :: user where
  "bob = \<lparr>user_id = 2, user_role = RoleUser\<rparr>"

definition carol :: user where
  "carol = \<lparr>user_id = 3, user_role = RoleAdmin\<rparr>"

text \<open>The database before any application: the counter of a fresh table is 1.\<close>

definition shelter :: db where
  "shelter = \<lparr>animals = [rex], applications = [], next_application_id = 1\<rparr>"

text \<open>The row the insert writes for applicant \<open>uid\<close> on animal 7 at time \<open>t\<close>.\<close>

definition new_row :: "nat \<Rightarrow> nat \<Rightarrow> nat \<Rightarrow> application" where
  "new_row i uid t = \<lparr>app_id = i, app_user_id = uid, app_animal_id = 7, app_status = Pending,
      app_details = form, application_date = t, reviewed_by = None, reviewed_date = None,
      admin_notes = None\<rparr>"

text \<open>Alice and Bob have both applied for Rex.\<close>

definition two_pending :: db where
  "two_pending = \<lparr>animals = [rex], applications = [new_row 1 1 10, new_row 2 2 11],
      next_application_id = 3\<rparr>"

text \<open>
  The tables as the specification's scenarios have them once Alice's application is
  approved: Rex is unavailable and Bob's application is rejected with the cascade's
  note, both reviewed by Carol at time 12.
\<close>

definition rex_approved :: db where
  "rex_approved =
     \<lparr>animals = [rex\<lparr>is_available := False, updated_at := 12\<rparr>],
      applications = [review Approved ''Home visit passed'' 3 12 (new_row 1 1 10),
        review Rejected ''Animal was adopted by another applicant'' 3 12 (new_row 2 2 11)],
      next_application_id = 3\<rparr>"

text \<open>Alice's application is pending and Rex is not available.\<close>

definition rex_on_hold :: db where
  "rex_on_hold = \<lparr>animals = [rex\<lparr>is_available := False, updated_at := 12\<rparr>],
      applications = [new_row 1 1 10], next_application_id = 2\<rparr>"

text \<open>An update that lists an animal as available.\<close>

definition relist :: animal_update where
  "relist = \<lparr>new_description = None, new_location = None, new_is_available = Some True\<rparr>"

section \<open>Properties\<close>

lemmas query_defs = getOne_def select_animal_def select_application_def select_pending_def

lemmas write_defs = set_is_available_def review_def update_status_def reject_other_pending_def
  delete_application_row_def insert_application_def

lemmas route_defs = requireRole_def requireStaff_def post_adoption_def executeQuery_def
  and_then_def status_writes_def put_status_handler_def status_route_def put_status_def
  delete_adoption_def animal_update_ok_def apply_update_def put_animal_handler_def
  animal_route_def put_animal_def

lemmas sample_defs = rex_def form_def alice_def bob_def carol_def shelter_def new_row_def
  two_pending_def rex_approved_def rex_on_hold_def relist_def

subsection \<open>Queries over a table\<close>

lemma getOne_Some_mem: "getOne (filter P xs) = Some r \<Longrightarrow> r \<in> set xs \<and> P r"
  by (induction xs) (auto simp: getOne_def split: if_splits)

lemma getOne_None_iff: "getOne (filter P xs) = None \<longleftrightarrow> (\<forall>r\<in>set xs. \<not> P r)"
  by (induction xs) (auto simp: getOne_def)

lemma select_animal_mem:
  "select_animal aid s = Some an \<Longrightarrow> an \<in> set (animals s) \<and> animal_id an = aid"
  using getOne_Some_mem [of "\<lambda>r. animal_id r = aid" "animals s" an]
  by (simp add: select_animal_def)

text \<open>Two accepted creations lead from the empty table to the sample with two pending rows.\<close>

lemma two_pending_reached:
  "run [Create alice True 10 7 form, Create bob True 11 7 form] shelter = two_pending"
  by (simp add: run_def sample_defs route_defs query_defs write_defs)

subsection \<open>The role check without a user\<close>

text \<open>
  Both routes that start with \<^verbatim>\<open>requireStaff\<close> answer 401 and leave the database as it
  is, whatever the request and whatever the tables hold.
\<close>

lemma requireStaff_no_user: "requireStaff None = Some (Response 401 ''Authentication required.'')"
  by (simp add: requireStaff_def requireRole_def)

lemma put_status_refuses:
  "put_status fault now i st notes s = (Response 401 ''Authentication required.'', s)"
  by (simp add: put_status_def status_route_def requireStaff_no_user)

lemma put_animal_refuses:
  "put_animal now aid f s = (Response 401 ''Authentication required.'', s)"
  by (simp add: put_animal_def animal_route_def requireStaff_no_user)

subsection \<open>One approved application per animal\<close>

text \<open>
  No request adds an approved row: a creation appends a pending row or nothing, a
  deletion removes rows, and a status update is refused.
\<close>

lemma approved_count_insert:
  "approved_count aid (insert_application uid x d now s) = approved_count aid s"
  by (simp add: approved_count_def insert_application_def)

lemma approved_count_delete_row:
  "approved_count aid (delete_application_row i s) \<le> approved_count aid s"
proof -
  have "length (filter P (filter Q xs)) \<le> length (filter P xs)" for P Q and xs :: "application list"
    by (induction xs) auto
  then show ?thesis by (simp add: approved_count_def delete_application_row_def)
qed

lemma approved_count_step: "approved_count aid (step c s) \<le> approved_count aid s"
proof (cases c)
  case (Create u body_ok now x d)
  then show ?thesis
    by (simp add: post_adoption_def approved_count_insert split: option.splits)
next
  case (Transition fault now i st nt)
  then show ?thesis by (simp add: put_status_refuses)
next
  case (Delete u i)
  then show ?thesis
    using approved_count_delete_row [of aid i s]
    by (simp add: delete_adoption_def split: option.splits)
qed

lemma approved_count_run: "approved_count aid (run cs s) \<le> approved_count aid s"
proof (induction cs arbitrary: s)
  case Nil
  then show ?case by (simp add: run_def)
next
  case (Cons c cs)
  have "approved_count aid (run cs (step c s)) \<le> approved_count aid (step c s)"
    by (rule Cons.IH)
  also have "\<dots> \<le> approved_count aid s" by (rule approved_count_step)
  finally show ?case by (simp add: run_def)
qed

text \<open>
  C1. From a database in which an animal has at most one approved application (the
  empty applications table among them), every sequence of creations, status updates
  and deletions leads to a database in which the animal has at most one.
\<close>

theorem run_keeps_one_approved:
  "approved_count aid s \<le> 1 \<Longrightarrow> approved_count aid (run cs s) \<le> 1"
  using approved_count_run [of aid cs s] by simp

text \<open>
  From the shelter without applications two approvals are requested after two
  creations and none is granted; from the tables with Alice's approval a further
  approval request and a further creation leave the count at one.
\<close>

theorem run_keeps_one_approved_witness:
  "approved_count 7 shelter = 0 \<and>
   approved_count 7 (run [Create alice True 10 7 form, Create bob True 11 7 form,
      Transition None 12 1 Approved (Some ''Home visit passed''),
      Transition None 13 2 Approved (Some ''Second thoughts''),
      Delete alice 1] shelter) = 0 \<and>
   approved_count 7 rex_approved = 1 \<and>
   approved_count 7 (run [Transition None 13 2 Approved (Some ''Second thoughts''),
      Create carol True 14 7 form] rex_approved) = 1"
proof -
  have h1: "approved_count 7 shelter \<le> 1" by (simp add: approved_count_def shelter_def)
  have h2: "approved_count 7 rex_approved \<le> 1"
    by (simp add: approved_count_def sample_defs review_def)
  show ?thesis
    using run_keeps_one_approved [OF h1] run_keeps_one_approved [OF h2]
    by (simp add: approved_count_def run_def sample_defs route_defs query_defs write_defs)
qed

subsection \<open>Approval\<close>



text \<open>
  C3. The claim is that approving a pending application leaves it approved, its
  animal unavailable and the other pending applications of the animal rejected. In
  the specification's scenario, with Alice's and Bob's applications pending, the
  request to approve Alice's is answered 401 by the role check, which finds no user
  on the request; no row is approved or rejected and Rex stays available.
\<close>

theorem approval_request_refused:
  "map app_status (applications two_pending) = [Pending, Pending] \<and>
   map is_available (animals two_pending) = [True] \<and>
   put_status None 12 1 Approved (Some ''Home visit passed'') two_pending
     = (Response 401 ''Authentication required.'', two_pending)"
  by (simp add: put_status_def status_route_def requireStaff_def requireRole_def
      sample_defs)

subsection \<open>Leaving the approved state\<close>

text \<open>
  C4. The claim is that setting an approved application to rejected or completed
  makes its animal available again. With Alice's application approved and Rex
  unavailable, either request is answered 401 by the role check and Rex stays
  unavailable.
\<close>

theorem completion_request_refused:
  "map app_status (applications rex_approved) = [Approved, Rejected] \<and>
   map is_available (animals rex_approved) = [False] \<and>
   put_status None 20 1 Completed (Some ''Paperwork done'') rex_approved
     = (Response 401 ''Authentication required.'', rex_approved) \<and>
   put_status None 20 1 Rejected (Some ''Withdrawn'') rex_approved
     = (Response 401 ''Authentication required.'', rex_approved)"
  by (simp add: put_status_def status_route_def requireStaff_def requireRole_def
      sample_defs review_def)

subsection \<open>Transitions the specification forbids\<close>





subsection \<open>Creating an application\<close>

text \<open>
  The tables stay consistent along every sequence of requests, and are so when there
  is no application.
\<close>

lemma consistent_no_applications: "applications s = [] \<Longrightarrow> consistent s"
  by (simp add: consistent_def)

lemma consistent_step:
  assumes "consistent s"
  shows "consistent (step c s)"
proof (cases c)
  case (Create u body_ok now aid d)
  show ?thesis
  proof (cases "fst (post_adoption u body_ok now aid d s) = Response 201 ''Adoption application submitted successfully''")
    case False
    then have "snd (post_adoption u body_ok now aid d s) = s"
      by (auto simp: post_adoption_def split: option.splits if_splits)
    then show ?thesis using assms Create by simp
  next
    case True
    then obtain an where an: "select_animal aid s = Some an"
      and s': "snd (post_adoption u body_ok now aid d s) = insert_application (user_id u) aid d now s"
      by (auto simp: post_adoption_def split: option.splits if_splits)
    have m: "an \<in> set (animals s)" "animal_id an = aid"
      using select_animal_mem [OF an] by simp_all
    have "consistent (insert_application (user_id u) aid d now s)"
      using assms m unfolding consistent_def insert_application_def
      by (simp add: ball_Un) blast
    then show ?thesis using Create s' by simp
  qed
next
  case (Transition fault now i st nt)
  then show ?thesis using assms by (simp add: put_status_refuses)
next
  case (Delete u i)
  have "consistent (delete_application_row i s)"
    using assms unfolding consistent_def delete_application_row_def by simp blast
  then show ?thesis
    using assms Delete by (simp add: delete_adoption_def split: option.splits)
qed

lemma consistent_run: "consistent s \<Longrightarrow> consistent (run cs s)"
proof (induction cs arbitrary: s)
  case Nil
  then show ?case by (simp add: run_def)
next
  case (Cons c cs)
  then have "consistent (run cs (step c s))" using consistent_step by blast
  then show ?case by (simp add: run_def)
qed

text \<open>
  C7. On consistent tables, when the applicant already has a pending or an approved
  application for the animal, a creation is answered 400 and writes nothing; for a
  valid form the message is that the animal is no longer available or that the
  applicant already has a pending application.
\<close>

theorem post_adoption_conflict:
  assumes "consistent s"
    and "\<exists>r \<in> set (applications s). app_user_id r = user_id u \<and> app_animal_id r = aid \<and>
           (app_status r = Pending \<or> app_status r = Approved)"
  shows "http_status (fst (post_adoption u body_ok now aid d s)) = 400 \<and>
         (body_ok \<longrightarrow>
            message (fst (post_adoption u body_ok now aid d s))
              = ''This animal is no longer available for adoption'' \<or>
            message (fst (post_adoption u body_ok now aid d s))
              = ''You already have a pending application for this animal'') \<and>
         snd (post_adoption u body_ok now aid d s) = s"
proof -
  from assms(2) obtain r where r: "r \<in> set (applications s)" "app_user_id r = user_id u"
    "app_animal_id r = aid" "app_status r = Pending \<or> app_status r = Approved"
    by blast
  have "\<exists>an \<in> set (animals s). animal_id an = aid"
    using assms(1) r(1,3) unfolding consistent_def by blast
  then have "select_animal aid s \<noteq> None"
    unfolding select_animal_def getOne_None_iff by blast
  then obtain an where an: "select_animal aid s = Some an" by blast
  have m: "an \<in> set (animals s)" "animal_id an = aid"
    using select_animal_mem [OF an] by simp_all
  show ?thesis
  proof (cases "is_available an")
    case False
    then show ?thesis using an by (simp add: post_adoption_def)
  next
    case True
    have "app_status r \<noteq> Approved"
      using assms(1) r(1,3) m True unfolding consistent_def by blast
    then have "app_status r = Pending" using r(4) by simp
    then have "select_pending (user_id u) aid s \<noteq> None"
      unfolding select_pending_def getOne_None_iff using r(1,2,3) by blast
    then show ?thesis using True an by (auto simp: post_adoption_def)
  qed
qed

theorem post_adoption_conflict_witness:
  "consistent two_pending \<and> consistent rex_approved \<and>
   post_adoption alice True 12 7 form two_pending
     = (Response 400 ''You already have a pending application for this animal'', two_pending) \<and>
   map (\<lambda>r. (app_user_id r, app_animal_id r, app_status r)) (applications rex_approved)
     = [(1, 7, Approved), (2, 7, Rejected)] \<and>
   post_adoption alice True 13 7 form rex_approved
     = (Response 400 ''This animal is no longer available for adoption'', rex_approved)"
proof -
  have c1: "consistent two_pending" by (simp add: consistent_def sample_defs)
  have c2: "consistent rex_approved" by (simp add: consistent_def sample_defs review_def)
  have p1: "\<exists>r \<in> set (applications two_pending). app_user_id r = user_id alice \<and> app_animal_id r = 7 \<and>
           (app_status r = Pending \<or> app_status r = Approved)"
    by (simp add: sample_defs)
  have p2: "\<exists>r \<in> set (applications rex_approved). app_user_id r = user_id alice \<and> app_animal_id r = 7 \<and>
           (app_status r = Pending \<or> app_status r = Approved)"
    by (simp add: sample_defs review_def)
  show ?thesis
    using c1 c2 post_adoption_conflict [OF c1 p1, of True 12 form]
      post_adoption_conflict [OF c2 p2, of True 13 form]
    by (simp add: sample_defs route_defs query_defs review_def)
qed

subsection \<open>Failures write nothing\<close>

text \<open>
  C8. Whenever the status route answers with a status from 400 to 499 (the role
  check's 401 or 403, the validation's 400, the 404 of an application that is not
  found), the database is the one it started from. This holds for a request with or
  without a user; the route as mounted is the case without.
\<close>

theorem status_route_error_no_write:
  assumes "400 \<le> http_status (fst (status_route req_user fault now i st notes s))"
    and "http_status (fst (status_route req_user fault now i st notes s)) < 500"
  shows "snd (status_route req_user fault now i st notes s) = s"
proof (cases "requireStaff req_user")
  case (Some refusal)
  then show ?thesis by (simp add: status_route_def)
next
  case None
  then have e: "status_route req_user fault now i st notes s
      = put_status_handler req_user fault now i st notes s"
    by (simp add: status_route_def)
  show ?thesis
    using assms unfolding e
    by (auto simp: put_status_handler_def split: if_splits sum.splits option.splits prod.splits)
qed

theorem status_route_error_no_write_witness:
  "put_status None 12 99 Approved (Some ''Home visit passed'') two_pending
     = (Response 401 ''Authentication required.'', two_pending) \<and>
   put_status (Some 2) 12 1 Approved None two_pending
     = (Response 401 ''Authentication required.'', two_pending)"
proof -
  have e: "put_status f n i st nt s = status_route None f n i st nt s" for f n i st nt s
    by (simp add: put_status_def)
  have h1: "400 \<le> http_status (fst (status_route None None 12 99 Approved (Some ''Home visit passed'') two_pending))"
    and h2: "http_status (fst (status_route None None 12 99 Approved (Some ''Home visit passed'') two_pending)) < 500"
    by (simp_all add: status_route_def requireStaff_def requireRole_def)
  have h3: "400 \<le> http_status (fst (status_route None (Some 2) 12 1 Approved None two_pending))"
    and h4: "http_status (fst (status_route None (Some 2) 12 1 Approved None two_pending)) < 500"
    by (simp_all add: status_route_def requireStaff_def requireRole_def)
  show ?thesis
    using status_route_error_no_write [OF h1 h2] status_route_error_no_write [OF h3 h4]
    by (simp add: e prod_eq_iff status_route_def requireStaff_def requireRole_def)
qed

subsection \<open>The generic animal update\<close>

text \<open>
  C9. When the animal has an approved application, the update of the animal changes
  no row of the animals table, \<open>is_available\<close> included: the role check refuses the
  request. So a request that changes \<open>is_available\<close> meets no approved application.
\<close>

theorem put_animal_keeps_availability:
  assumes "0 < approved_count aid s"
  shows "fst (put_animal now aid f s) = Response 401 ''Authentication required.'' \<and>
         animals (snd (put_animal now aid f s)) = animals s \<and>
         snd (put_animal now aid f s) = s"
  by (simp add: put_animal_refuses)

theorem put_animal_keeps_availability_witness:
  "approved_count 7 rex_approved = 1 \<and>
   map is_available (animals rex_approved) = [False] \<and>
   put_animal 30 7 relist rex_approved = (Response 401 ''Authentication required.'', rex_approved) \<and>
   map is_available (animals (snd (put_animal 30 7 relist rex_approved))) = [False]"
proof -
  have h: "0 < approved_count 7 rex_approved"
    by (simp add: approved_count_def sample_defs review_def)
  show ?thesis
    using put_animal_keeps_availability [OF h, of 30 relist]
    by (simp add: prod_eq_iff approved_count_def sample_defs review_def)
qed

subsection \<open>Deleting an application\<close>

text \<open>
  C10. Deleting an existing application never changes the animals table, and so not
  the row of the application's animal, and never changes the rows of other
  applications; when the request succeeds the application is gone, and when it is
  refused the database is as before. In particular the animal of a deleted approved
  application stays unavailable.
\<close>

theorem delete_adoption_frame:
  assumes "select_application i s = Some a"
  shows "animals (snd (delete_adoption u i s)) = animals s \<and>
         select_animal (app_animal_id a) (snd (delete_adoption u i s)) = select_animal (app_animal_id a) s \<and>
         filter (\<lambda>r. app_id r \<noteq> i) (applications (snd (delete_adoption u i s))) =
           filter (\<lambda>r. app_id r \<noteq> i) (applications s) \<and>
         (if http_status (fst (delete_adoption u i s)) = 200
          then select_application i (snd (delete_adoption u i s)) = None
          else snd (delete_adoption u i s) = s)"
  using assms
  by (auto simp: delete_adoption_def delete_application_row_def select_application_def
      select_animal_def getOne_def)

text \<open>
  An administrator deletes Alice's approved application: Rex has no approved
  application left and is still unavailable.
\<close>

theorem delete_adoption_frame_witness:
  "select_application 1 rex_approved = Some (review Approved ''Home visit passed'' 3 12 (new_row 1 1 10)) \<and>
   fst (delete_adoption carol 1 rex_approved) = Response 200 ''Application deleted successfully'' \<and>
   map app_id (applications (snd (delete_adoption carol 1 rex_approved))) = [2] \<and>
   approved_count 7 (snd (delete_adoption carol 1 rex_approved)) = 0 \<and>
   map is_available (animals (snd (delete_adoption carol 1 rex_approved))) = [False]"
proof -
  have h1: "select_application 1 rex_approved = Some (review Approved ''Home visit passed'' 3 12 (new_row 1 1 10))"
    by (simp add: rex_approved_def query_defs review_def new_row_def)
  show ?thesis
    using h1 delete_adoption_frame [OF h1, of carol]
    by (simp add: sample_defs route_defs query_defs write_defs approved_count_def)
qed

subsection \<open>Behind the role check\<close>

text \<open>
  What the status handler does for a request that carries an administrator or a
  volunteer, which the route as mounted never receives. With notes in the body and
  no failing query it answers 200 after the update of the row and, where they apply,
  the cascade of an approval and the release of the animal.
\<close>

lemma requireStaff_staff:
  "user_role u = RoleAdmin \<or> user_role u = RoleVolunteer \<Longrightarrow> requireStaff (Some u) = None"
  by (auto simp: requireStaff_def requireRole_def)

lemma status_route_staff:
  assumes "user_role u = RoleAdmin \<or> user_role u = RoleVolunteer"
    and "select_application i s = Some a" and "length n \<le> 1000"
  shows "status_route (Some u) None now i st (Some n) s =
           (Response 200 (''Application '' @ status_name st @ '' successfully''),
            (let s1 = update_status st n (user_id u) now i s;
                 s2 = (if st = Approved \<and> app_status a \<noteq> Approved
                       then reject_other_pending (user_id u) now (app_animal_id a) i
                              (set_is_available False now (app_animal_id a) s1)
                       else s1)
             in if (st = Rejected \<or> st = Completed) \<and> app_status a = Approved
                then set_is_available True now (app_animal_id a) s2 else s2))"
  using assms(2,3)
  by (simp add: status_route_def requireStaff_staff [OF assms(1)] put_status_handler_def
      status_writes_def executeQuery_def and_then_def Let_def)

lemma handler_cascade:
  assumes "user_role u = RoleAdmin \<or> user_role u = RoleVolunteer"
    and "select_application i s = Some a" and "app_status a = Pending" and "length n \<le> 1000"
  shows "http_status (fst (status_route (Some u) None now i Approved (Some n) s)) = 200 \<and>
         applications (snd (status_route (Some u) None now i Approved (Some n) s)) =
           map (\<lambda>r. if app_id r = i then review Approved n (user_id u) now r
                    else if app_animal_id r = app_animal_id a \<and> app_status r = Pending
                    then review Rejected ''Animal was adopted by another applicant'' (user_id u) now r
                    else r) (applications s) \<and>
         animals (snd (status_route (Some u) None now i Approved (Some n) s)) =
           map (\<lambda>r. if animal_id r = app_animal_id a
                    then r\<lparr>is_available := False,
                           updated_at := (if is_available r = False then updated_at r else now)\<rparr>
                    else r) (animals s)"
  using assms(3)
  by (simp add: status_route_staff [OF assms(1,2,4)] Let_def write_defs)

lemma handler_release:
  assumes "user_role u = RoleAdmin \<or> user_role u = RoleVolunteer"
    and "select_application i s = Some a" and "app_status a = Approved"
    and "st = Rejected \<or> st = Completed" and "length n \<le> 1000"
  shows "http_status (fst (status_route (Some u) None now i st (Some n) s)) = 200 \<and>
         animals (snd (status_route (Some u) None now i st (Some n) s)) =
           map (\<lambda>r. if animal_id r = app_animal_id a
                    then r\<lparr>is_available := True,
                           updated_at := (if is_available r = True then updated_at r else now)\<rparr>
                    else r) (animals s)"
  using assms(3,4)
  by (auto simp: status_route_staff [OF assms(1,2,5)] Let_def write_defs)

text \<open>
  The catch branch: when the third write of an approval raises, the handler answers
  500 with Alice's row approved, Rex unavailable and Bob's row still pending; and a
  body without notes is answered 500 before any write.
\<close>

lemma handler_partial_write:
  "fst (status_route (Some carol) (Some 3) 12 1 Approved (Some ''Home visit passed'') two_pending)
     = Response 500 ''Server error updating application status'' \<and>
   map app_status (applications
     (snd (status_route (Some carol) (Some 3) 12 1 Approved (Some ''Home visit passed'') two_pending)))
     = [Approved, Pending] \<and>
   map is_available (animals
     (snd (status_route (Some carol) (Some 3) 12 1 Approved (Some ''Home visit passed'') two_pending)))
     = [False]"
  by (simp add: sample_defs route_defs query_defs write_defs)

lemma handler_without_notes:
  "status_route (Some carol) None 12 1 Approved None two_pending
     = (Response 500 ''Server error updating application status'', two_pending)"
  by (simp add: sample_defs route_defs query_defs)

end
